theory Spec2Isabelle
  imports Complex_Main
begin

section \<open>The to-do list REST API (todos.py)\<close>

text \<open>
  A shallow embedding of the Flask application in \<^verbatim>\<open>todos.py\<close>. The module-level
  list \<^verbatim>\<open>todos\<close> is the state: every handler takes the list and the handlers that
  write to it return the new list. A handler's result is the pair the view function
  returns, body and status code; an exception that escapes the view function is a
  value of \<open>py_error\<close>.
\<close>

subsection \<open>JSON values and the Python operations the handlers apply to them\<close>

text \<open>
  The value of \<^verbatim>\<open>request.json\<close>. \<open>JNull\<close> is Python's \<^verbatim>\<open>None\<close>, \<open>JObj\<close> holds the items
  of a \<^verbatim>\<open>dict\<close> in insertion order (keys distinct, as in a dict), \<open>JFloat\<close> a finite
  float.
\<close>

datatype json =
    JNull
  | JBool bool
  | JInt int
  | JFloat real
  | JStr string
  | JList "json list"
  | JObj "(string \<times> json) list"

datatype py_error = TypeError | AttributeError | KeyError

text \<open>Truth value of an object, as \<^verbatim>\<open>not data\<close> and \<^verbatim>\<open>data or {}\<close> test it.\<close>

fun truthy :: "json \<Rightarrow> bool" where
  "truthy JNull = False"
| "truthy (JBool b) = b"
| "truthy (JInt i) = (i \<noteq> 0)"
| "truthy (JFloat r) = (r \<noteq> 0)"
| "truthy (JStr s) = (s \<noteq> [])"
| "truthy (JList xs) = (xs \<noteq> [])"
| "truthy (JObj kvs) = (kvs \<noteq> [])"

text \<open>\<^verbatim>\<open>sub in s\<close> on two strings: \<open>sub\<close> occurs in \<open>s\<close> as a contiguous run.\<close>

fun str_contains :: "string \<Rightarrow> string \<Rightarrow> bool" where
  "str_contains [] sub = (sub = [])"
| "str_contains (c # cs) sub = (take (length sub) (c # cs) = sub \<or> str_contains cs sub)"

text \<open>
  \<^verbatim>\<open>key in data\<close> for a string \<open>key\<close>: key membership on a dict, element equality on a
  list, substring on a string, \<^verbatim>\<open>TypeError\<close> on anything that is no container.
\<close>

fun py_contains :: "json \<Rightarrow> string \<Rightarrow> py_error + bool" where
  "py_contains (JObj kvs) key = Inr (key \<in> set (map fst kvs))"
| "py_contains (JList xs) key = Inr (JStr key \<in> set xs)"
| "py_contains (JStr s) key = Inr (str_contains s key)"
| "py_contains JNull key = Inl TypeError"
| "py_contains (JBool b) key = Inl TypeError"
| "py_contains (JInt i) key = Inl TypeError"
| "py_contains (JFloat r) key = Inl TypeError"

text \<open>\<^verbatim>\<open>data[key]\<close> for a string \<open>key\<close>: only a dict can be indexed with a string.\<close>

fun py_getitem :: "json \<Rightarrow> string \<Rightarrow> py_error + json" where
  "py_getitem (JObj kvs) key =
     (case map_of kvs key of None \<Rightarrow> Inl KeyError | Some v \<Rightarrow> Inr v)"
| "py_getitem (JList xs) key = Inl TypeError"
| "py_getitem (JStr s) key = Inl TypeError"
| "py_getitem JNull key = Inl TypeError"
| "py_getitem (JBool b) key = Inl TypeError"
| "py_getitem (JInt i) key = Inl TypeError"
| "py_getitem (JFloat r) key = Inl TypeError"

text \<open>\<^verbatim>\<open>data.get(key, default)\<close>: a method of dicts only.\<close>

fun py_get :: "json \<Rightarrow> string \<Rightarrow> json \<Rightarrow> py_error + json" where
  "py_get (JObj kvs) key dflt =
     (case map_of kvs key of None \<Rightarrow> Inr dflt | Some v \<Rightarrow> Inr v)"
| "py_get (JList xs) key dflt = Inl AttributeError"
| "py_get (JStr s) key dflt = Inl AttributeError"
| "py_get JNull key dflt = Inl AttributeError"
| "py_get (JBool b) key dflt = Inl AttributeError"
| "py_get (JInt i) key dflt = Inl AttributeError"
| "py_get (JFloat r) key dflt = Inl AttributeError"

text \<open>
  \<^verbatim>\<open>xs[i:j]\<close>: a negative bound counts from the end, and both bounds are clipped to the
  list.
\<close>

definition slice_bound :: "nat \<Rightarrow> int \<Rightarrow> nat" where
  "slice_bound n k = (if k < 0 then nat (max (int n + k) 0) else min (nat k) n)"

definition py_slice :: "'a list \<Rightarrow> int \<Rightarrow> int \<Rightarrow> 'a list" where
  "py_slice xs i j =
     (let lo = slice_bound (length xs) i; hi = slice_bound (length xs) j
      in take (hi - lo) (drop lo xs))"

text \<open>The decimal text of an integer, as an f-string prints it.\<close>

fun str_nat :: "nat \<Rightarrow> string" where
  "str_nat n =
     (if n < 10 then [''0123456789'' ! n]
      else str_nat (n div 10) @ [''0123456789'' ! (n mod 10)])"

declare str_nat.simps [simp del]

definition str_int :: "int \<Rightarrow> string" where
  "str_int i = (if i < 0 then CHR ''-'' # str_nat (nat (- i)) else str_nat (nat i))"

subsection \<open>The store\<close>

text \<open>
  One to-do item: a dict with the keys \<^verbatim>\<open>id\<close>, \<^verbatim>\<open>task\<close> and \<^verbatim>\<open>done\<close>. The id is an
  integer; \<^verbatim>\<open>task\<close> and \<^verbatim>\<open>done\<close> hold whatever JSON value a request body gave them.
\<close>

record todo =
  todo_id :: int
  todo_task :: json
  todo_done :: json

definition mk_todo :: "int \<Rightarrow> string \<Rightarrow> todo" where
  "mk_todo i t = \<lparr>todo_id = i, todo_task = JStr t, todo_done = JBool False\<rparr>"

text \<open>The sample list the module starts with (the initial value of \<^verbatim>\<open>todos\<close>).\<close>

definition initial_todos :: "todo list" where
  "initial_todos =
     [mk_todo 1 ''Learn Flask'',
      mk_todo 2 ''Build a REST API'',
      mk_todo 3 ''Test the API'',
      mk_todo 4 ''Watch another course from Kesha'',
      mk_todo 5 ''Learn Laravel'',
      mk_todo 6 ''Build a GraphQL API'',
      mk_todo 7 ''Learn Java Spring'',
      mk_todo 8 ''Build a gRPC API'',
      mk_todo 9 ''Learn .NET'',
      mk_todo 10 ''Build a SOAP API'',
      mk_todo 11 ''Learn Django'',
      mk_todo 12 ''Document an API'',
      mk_todo 13 ''Learn Node.js'',
      mk_todo 14 ''Secure an API'',
      mk_todo 15 ''Learn Next.js'',
      mk_todo 16 ''Build a WebSockets connection'']"

text \<open>\<^verbatim>\<open>next((todo for todo in todos if todo['id'] == todo_id), None)\<close>: the first match.\<close>

definition find_todo :: "int \<Rightarrow> todo list \<Rightarrow> todo option" where
  "find_todo tid todos = find (\<lambda>t. todo_id t = tid) todos"

text \<open>
  An assignment to a key of the dict that \<open>find_todo\<close> returned changes that dict
  inside the list: the first item with the id.
\<close>

fun assign_found :: "int \<Rightarrow> (todo \<Rightarrow> todo) \<Rightarrow> todo list \<Rightarrow> todo list" where
  "assign_found tid f [] = []"
| "assign_found tid f (t # ts) =
     (if todo_id t = tid then f t # ts else t # assign_found tid f ts)"

text \<open>\<^verbatim>\<open>max(todo['id'] for todo in todos) + 1 if todos else 1\<close>\<close>

definition next_id :: "todo list \<Rightarrow> int" where
  "next_id todos =
     (case todos of [] \<Rightarrow> 1 | t # ts \<Rightarrow> fold max (map todo_id ts) (todo_id t) + 1)"

subsection \<open>HATEOAS helpers\<close>

text \<open>
  \<^verbatim>\<open>url_for(endpoint, **values, _external=True)\<close> is Flask's; the model keeps what the
  code passes to it, the endpoint name and the values. Values that are not part of the
  route (\<^verbatim>\<open>offset\<close> and \<^verbatim>\<open>size\<close> of \<^verbatim>\<open>get_todos\<close>) become the query parameters of the URL.
\<close>

record href =
  endpoint :: string
  params :: "(string \<times> int) list"

definition url_for :: "string \<Rightarrow> (string \<times> int) list \<Rightarrow> href" where
  "url_for ep vs = \<lparr>endpoint = ep, params = vs\<rparr>"

type_synonym links = "(string \<times> href) list"

record todo_repr =
  item :: todo
  item_links :: links

definition add_todo_links :: "todo \<Rightarrow> todo_repr" where
  "add_todo_links t =
     \<lparr>item = t,
      item_links =
        [(''self'', url_for ''get_todo'' [(''todo_id'', todo_id t)]),
         (''update'', url_for ''update_todo'' [(''todo_id'', todo_id t)]),
         (''delete'', url_for ''delete_todo'' [(''todo_id'', todo_id t)]),
         (''collection'', url_for ''get_todos'' [])]\<rparr>"

record page_info =
  offset :: int
  page_size :: int
  total_items :: int

record collection =
  links :: links
  embedded :: "todo_repr list"
  page :: page_info

definition add_collection_links :: "todo list \<Rightarrow> int \<Rightarrow> int \<Rightarrow> int \<Rightarrow> collection" where
  "add_collection_links items ofs sz tot =
     (let self_url = url_for ''get_todos'' [(''offset'', ofs), (''size'', sz)];
          links0 = [(''self'', self_url), (''create'', url_for ''create_todo'' [])];
          links1 =
            (if ofs > 0
             then links0 @
                  [(''prev'',
                    url_for ''get_todos'' [(''offset'', max (ofs - sz) 0), (''size'', sz)])]
             else links0);
          links2 =
            (if ofs + sz < tot
             then links1 @
                  [(''next'', url_for ''get_todos'' [(''offset'', ofs + sz), (''size'', sz)])]
             else links1)
      in \<lparr>links = links2,
          embedded = map add_todo_links items,
          page = \<lparr>offset = ofs, page_size = sz, total_items = tot\<rparr>\<rparr>)"

subsection \<open>Routes\<close>

datatype body =
    Error string
  | Item todo_repr
  | Collection collection
  | Message_Todo string todo_repr
  | Message_Links string links

type_synonym response = "body \<times> nat"

text \<open>
  \<^verbatim>\<open>request.args.get(name, default=d, type=int)\<close>: the argument is \<open>None\<close> when the
  query string has no such parameter (or no integer for it), and the default is used.
\<close>

definition args_get :: "int option \<Rightarrow> int \<Rightarrow> int" where
  "args_get a dflt = (case a of None \<Rightarrow> dflt | Some v \<Rightarrow> v)"

definition get_todos :: "int option \<Rightarrow> int option \<Rightarrow> todo list \<Rightarrow> response" where
  "get_todos offset_arg size_arg todos =
     (let ofs = args_get offset_arg 0;
          sz = args_get size_arg 5
      in if ofs < 0 \<or> sz \<le> 0
         then (Error ''Invalid pagination parameters. Offset must be >= 0 and size must be > 0.'',
               400)
         else let tot = int (length todos);
                  paged_items = py_slice todos ofs (ofs + sz)
              in (Collection (add_collection_links paged_items ofs sz tot), 200))"

definition get_todo :: "int \<Rightarrow> todo list \<Rightarrow> response" where
  "get_todo tid todos =
     (case find_todo tid todos of
        None \<Rightarrow> (Error ''To-do item not found'', 404)
      | Some t \<Rightarrow> (Item (add_todo_links t), 200))"

definition create_todo :: "json \<Rightarrow> todo list \<Rightarrow> (py_error + response) \<times> todo list" where
  "create_todo data todos =
     (if \<not> truthy data then (Inr (Error ''Task description is required'', 400), todos)
      else case py_contains data ''task'' of
        Inl e \<Rightarrow> (Inl e, todos)
      | Inr False \<Rightarrow> (Inr (Error ''Task description is required'', 400), todos)
      | Inr True \<Rightarrow>
          (case py_getitem data ''task'' of
             Inl e \<Rightarrow> (Inl e, todos)
           | Inr tk \<Rightarrow>
               (case py_get data ''done'' (JBool False) of
                  Inl e \<Rightarrow> (Inl e, todos)
                | Inr dn \<Rightarrow>
                    (let new_todo = \<lparr>todo_id = next_id todos, todo_task = tk, todo_done = dn\<rparr>
                     in (Inr (Message_Todo ''To-do item created'' (add_todo_links new_todo),
                              201),
                         todos @ [new_todo])))))"

definition update_todo ::
  "int \<Rightarrow> json \<Rightarrow> todo list \<Rightarrow> (py_error + response) \<times> todo list" where
  "update_todo tid body todos =
     (case find_todo tid todos of
        None \<Rightarrow> (Inr (Error ''To-do item not found'', 404), todos)
      | Some t \<Rightarrow>
          (let data = (if truthy body then body else JObj [])
           in case py_get data ''task'' (todo_task t) of
                Inl e \<Rightarrow> (Inl e, todos)
              | Inr tk \<Rightarrow>
                  (let todos1 = assign_found tid (\<lambda>u. u\<lparr>todo_task := tk\<rparr>) todos
                   in case py_get data ''done'' (todo_done t) of
                        Inl e \<Rightarrow> (Inl e, todos1)
                      | Inr dn \<Rightarrow>
                          (let todos2 = assign_found tid (\<lambda>u. u\<lparr>todo_done := dn\<rparr>) todos1
                           in (Inr (Message_Todo ''To-do item updated''
                                      (add_todo_links (t\<lparr>todo_task := tk, todo_done := dn\<rparr>)),
                                    200),
                               todos2)))))"

definition delete_todo :: "int \<Rightarrow> todo list \<Rightarrow> response \<times> todo list" where
  "delete_todo tid todos =
     ((Message_Links (''To-do item with ID '' @ str_int tid @ '' deleted'')
         [(''collection'', url_for ''get_todos'' [])],
       200),
      filter (\<lambda>t. todo_id t \<noteq> tid) todos)"

subsection \<open>Reading a link\<close>

text \<open>The \<^verbatim>\<open>offset\<close> query parameter of a link, if it has one.\<close>

definition link_offset :: "href \<Rightarrow> int option" where
  "link_offset h = map_of (params h) ''offset''"

section \<open>Properties\<close>

subsection \<open>Facts about the store operations\<close>

lemma next_id_Max:
  "todos \<noteq> [] \<Longrightarrow> next_id todos = Max (todo_id ` set todos) + 1"
  by (cases todos) (simp_all add: next_id_def Max.set_eq_fold [symmetric])

lemma next_id_greater: "t \<in> set todos \<Longrightarrow> todo_id t < next_id todos"
proof -
  assume t: "t \<in> set todos"
  then have ne: "todos \<noteq> []" by auto
  have "todo_id t \<le> Max (todo_id ` set todos)" using t by simp
  then show ?thesis using next_id_Max [OF ne] by simp
qed

lemma py_slice_window:
  assumes "0 \<le> ofs" and "0 < sz"
  shows "py_slice xs ofs (ofs + sz) = take (nat sz) (drop (nat ofs) xs)"
proof (cases "nat ofs \<le> length xs")
  case True
  then have lo: "slice_bound (length xs) ofs = nat ofs"
    using assms by (simp add: slice_bound_def)
  have hi: "slice_bound (length xs) (ofs + sz) = min (nat ofs + nat sz) (length xs)"
    using assms by (simp add: slice_bound_def nat_add_distrib)
  have "min (nat ofs + nat sz) (length xs) - nat ofs = min (nat sz) (length xs - nat ofs)"
    using True by linarith
  then show ?thesis
    by (simp add: py_slice_def lo hi Let_def min_def)
next
  case False
  then show ?thesis
    using assms by (simp add: py_slice_def slice_bound_def Let_def)
qed

lemma assign_found_ids:
  "(\<And>u. todo_id (f u) = todo_id u) \<Longrightarrow> map todo_id (assign_found tid f todos) = map todo_id todos"
  by (induction todos) simp_all

lemma find_todo_Some:
  "find_todo tid todos = Some t \<Longrightarrow> t \<in> set todos \<and> todo_id t = tid"
  by (induction todos) (auto simp: find_todo_def split: if_splits)

lemma assign_found_first:
  "find_todo tid todos = Some t \<Longrightarrow> assign_found tid f todos = assign_found tid (\<lambda>_. f t) todos"
  by (induction todos) (auto simp: find_todo_def split: if_splits)

lemma assign_found_twice:
  "(\<And>u. todo_id (f u) = todo_id u) \<Longrightarrow>
   assign_found tid g (assign_found tid f todos) = assign_found tid (g \<circ> f) todos"
  by (induction todos) simp_all

lemma find_todo_assign:
  "find_todo tid todos = Some t \<Longrightarrow> todo_id (f t) = tid \<Longrightarrow>
   find_todo tid (assign_found tid f todos) = Some (f t)"
  by (induction todos) (auto simp: find_todo_def split: if_splits)

lemma assign_found_index:
  "find_todo tid todos = Some t \<Longrightarrow>
   \<exists>i<length todos. todos ! i = t \<and> (\<forall>j<i. todo_id (todos ! j) \<noteq> tid) \<and>
      assign_found tid f todos = todos[i := f t]"
proof (induction todos)
  case Nil
  then show ?case by (simp add: find_todo_def)
next
  case (Cons a todos)
  show ?case
  proof (cases "todo_id a = tid")
    case True
    with Cons.prems have "a = t" by (simp add: find_todo_def)
    with True show ?thesis by (intro exI [of _ 0]) simp
  next
    case False
    with Cons.prems have "find_todo tid todos = Some t" by (simp add: find_todo_def)
    from Cons.IH [OF this] obtain i where i: "i < length todos" "todos ! i = t"
      "\<forall>j<i. todo_id (todos ! j) \<noteq> tid" "assign_found tid f todos = todos[i := f t]"
      by blast
    have "\<forall>j<Suc i. todo_id ((a # todos) ! j) \<noteq> tid"
      using False i(3) by (auto simp: nth_Cons split: nat.splits)
    with i False show ?thesis by (intro exI [of _ "Suc i"]) simp
  qed
qed

subsection \<open>Facts about the list handler\<close>

lemma get_todos_valid:
  assumes "0 \<le> args_get oa 0" and "0 < args_get sa 5"
  shows "get_todos oa sa todos =
           (Collection (add_collection_links
                          (take (nat (args_get sa 5)) (drop (nat (args_get oa 0)) todos))
                          (args_get oa 0) (args_get sa 5) (int (length todos))),
            200)"
  using assms by (simp add: get_todos_def Let_def py_slice_window)

lemma page_add_collection_links:
  "page (add_collection_links items ofs sz tot) =
     \<lparr>offset = ofs, page_size = sz, total_items = tot\<rparr>"
  by (simp add: add_collection_links_def Let_def)

lemma embedded_add_collection_links:
  "embedded (add_collection_links items ofs sz tot) = map add_todo_links items"
  by (simp add: add_collection_links_def Let_def)

lemma item_add_todo_links: "item (add_todo_links t) = t"
  by (simp add: add_todo_links_def)

lemma items_add_todo_links: "map item (map add_todo_links ts) = ts"
  by (induction ts) (simp_all add: item_add_todo_links)

subsection \<open>Facts about the handlers that write to the store\<close>

lemma find_todo_None: "find_todo tid todos = None \<longleftrightarrow> tid \<notin> todo_id ` set todos"
  by (auto simp: find_todo_def find_None_iff)

lemma filter_absent:
  "find_todo tid todos = None \<Longrightarrow> filter (\<lambda>t. todo_id t \<noteq> tid) todos = todos"
  by (auto simp: find_todo_None filter_id_conv)

lemma assign_found_self:
  "find_todo tid todos = Some t \<Longrightarrow> assign_found tid (\<lambda>_. t) todos = todos"
  by (induction todos) (auto simp: find_todo_def split: if_splits)

lemma create_todo_falsy:
  "\<not> truthy data \<Longrightarrow>
   create_todo data todos = (Inr (Error ''Task description is required'', 400), todos)"
  by (simp add: create_todo_def)

lemma create_todo_no_key:
  "map_of kvs ''task'' = None \<Longrightarrow>
   create_todo (JObj kvs) todos = (Inr (Error ''Task description is required'', 400), todos)"
  by (simp add: create_todo_def map_of_eq_None_iff)

lemma create_todo_key:
  assumes "map_of kvs ''task'' = Some tk"
  shows "create_todo (JObj kvs) todos =
           (Inr (Message_Todo ''To-do item created''
                   (add_todo_links
                      \<lparr>todo_id = next_id todos, todo_task = tk,
                       todo_done = (case map_of kvs ''done'' of None \<Rightarrow> JBool False | Some d \<Rightarrow> d)\<rparr>),
                 201),
            todos @
            [\<lparr>todo_id = next_id todos, todo_task = tk,
              todo_done = (case map_of kvs ''done'' of None \<Rightarrow> JBool False | Some d \<Rightarrow> d)\<rparr>])"
proof -
  from assms have k: "''task'' \<in> set (map fst kvs)"
    by (metis map_of_eq_None_iff option.distinct(1) set_map)
  then have ne: "kvs \<noteq> []" by auto
  show ?thesis
    using assms k ne
    by (cases "map_of kvs ''done''") (simp_all add: create_todo_def Let_def)
qed

lemma create_todo_cases:
  "(\<exists>e. create_todo data todos = (Inl e, todos)) \<or>
   create_todo data todos = (Inr (Error ''Task description is required'', 400), todos) \<or>
   (\<exists>tk dn. create_todo data todos =
      (Inr (Message_Todo ''To-do item created''
             (add_todo_links \<lparr>todo_id = next_id todos, todo_task = tk, todo_done = dn\<rparr>), 201),
       todos @ [\<lparr>todo_id = next_id todos, todo_task = tk, todo_done = dn\<rparr>]))"
  by (auto simp: create_todo_def Let_def split: sum.splits bool.splits)

lemma create_todo_ids:
  "map todo_id (snd (create_todo data todos)) = map todo_id todos \<or>
   map todo_id (snd (create_todo data todos)) = map todo_id todos @ [next_id todos]"
  using create_todo_cases [of data todos] by auto

lemma update_todo_missing:
  "find_todo tid todos = None \<Longrightarrow>
   update_todo tid body todos = (Inr (Error ''To-do item not found'', 404), todos)"
  by (simp add: update_todo_def)

lemma update_todo_dict:
  fixes kvs :: "(string \<times> json) list"
  assumes found: "find_todo tid todos = Some t"
  defines "tk \<equiv> (case map_of kvs ''task'' of None \<Rightarrow> todo_task t | Some v \<Rightarrow> v)"
    and "dn \<equiv> (case map_of kvs ''done'' of None \<Rightarrow> todo_done t | Some v \<Rightarrow> v)"
  shows "update_todo tid (JObj kvs) todos =
           (Inr (Message_Todo ''To-do item updated''
                   (add_todo_links (t\<lparr>todo_task := tk, todo_done := dn\<rparr>)), 200),
            assign_found tid (\<lambda>_. t\<lparr>todo_task := tk, todo_done := dn\<rparr>) todos)"
proof -
  have g1: "py_get (if truthy (JObj kvs) then JObj kvs else JObj []) ''task'' (todo_task t) = Inr tk"
    by (simp add: tk_def split: option.splits)
  have g2: "py_get (if truthy (JObj kvs) then JObj kvs else JObj []) ''done'' (todo_done t) = Inr dn"
    by (simp add: dn_def split: option.splits)
  have "assign_found tid (\<lambda>u. u\<lparr>todo_done := dn\<rparr>)
          (assign_found tid (\<lambda>u. u\<lparr>todo_task := tk\<rparr>) todos) =
        assign_found tid ((\<lambda>u. u\<lparr>todo_done := dn\<rparr>) \<circ> (\<lambda>u. u\<lparr>todo_task := tk\<rparr>)) todos"
    by (rule assign_found_twice) simp
  also have "\<dots> = assign_found tid (\<lambda>_. t\<lparr>todo_task := tk, todo_done := dn\<rparr>) todos"
    using assign_found_first [OF found, of "(\<lambda>u. u\<lparr>todo_done := dn\<rparr>) \<circ> (\<lambda>u. u\<lparr>todo_task := tk\<rparr>)"]
    by simp
  finally show ?thesis
    using found by (simp add: update_todo_def Let_def g1 g2 del: py_get.simps truthy.simps)
qed

lemma update_todo_falsy:
  "\<not> truthy body \<Longrightarrow> update_todo tid body todos = update_todo tid (JObj []) todos"
  by (simp add: update_todo_def)

lemma update_todo_ids:
  "map todo_id (snd (update_todo tid body todos)) = map todo_id todos"
  by (simp add: update_todo_def Let_def assign_found_ids split: option.splits sum.splits)

lemma at_most_one:
  "distinct (map todo_id todos) \<Longrightarrow> length (filter (\<lambda>t. todo_id t = k) todos) \<le> 1"
proof (induction todos)
  case Nil
  then show ?case by simp
next
  case (Cons a todos)
  show ?case
  proof (cases "todo_id a = k")
    case True
    with Cons.prems have "k \<notin> todo_id ` set todos" by auto
    then have "filter (\<lambda>t. todo_id t = k) todos = []"
      by (auto simp: filter_empty_conv)
    with True show ?thesis by simp
  next
    case False
    with Cons show ?thesis by simp
  qed
qed

subsection \<open>Navigation links of a collection\<close>

lemma links_prev:
  "map_of (links (add_collection_links items ofs sz tot)) ''prev'' =
     (if ofs > 0
      then Some (url_for ''get_todos'' [(''offset'', max (ofs - sz) 0), (''size'', sz)])
      else None)"
  by (simp add: add_collection_links_def Let_def)

lemma links_next:
  "map_of (links (add_collection_links items ofs sz tot)) ''next'' =
     (if ofs + sz < tot
      then Some (url_for ''get_todos'' [(''offset'', ofs + sz), (''size'', sz)])
      else None)"
  by (simp add: add_collection_links_def Let_def)

text \<open>
  Claim C1. In the collection that \<open>add_collection_links\<close> builds, the \<^verbatim>\<open>prev\<close> link is
  there exactly when the offset is positive, and it leads to \<^verbatim>\<open>get_todos\<close> with the offset
  \<open>max (offset - size) 0\<close>; the \<^verbatim>\<open>next\<close> link is there exactly when
  \<open>offset + size < total_items\<close>, and it leads to \<^verbatim>\<open>get_todos\<close> with the offset
  \<open>offset + size\<close>. This holds for all integers, so in particular for every offset
  \<open>\<ge> 0\<close> and size \<open>> 0\<close>.
\<close>

theorem collection_prev_next_links:
  "(map_of (links (add_collection_links items ofs sz tot)) ''prev'' \<noteq> None \<longleftrightarrow> ofs > 0) \<and>
   (\<forall>h. map_of (links (add_collection_links items ofs sz tot)) ''prev'' = Some h \<longrightarrow>
        endpoint h = ''get_todos'' \<and> link_offset h = Some (max (ofs - sz) 0)) \<and>
   (map_of (links (add_collection_links items ofs sz tot)) ''next'' \<noteq> None \<longleftrightarrow> ofs + sz < tot) \<and>
   (\<forall>h. map_of (links (add_collection_links items ofs sz tot)) ''next'' = Some h \<longrightarrow>
        endpoint h = ''get_todos'' \<and> link_offset h = Some (ofs + sz))"
  unfolding links_prev links_next
  by (auto simp: url_for_def link_offset_def)

theorem collection_prev_next_links_witness:
  "(\<exists>h. map_of (links (add_collection_links [] 15 5 16)) ''prev'' = Some h \<and>
        endpoint h = ''get_todos'' \<and> link_offset h = Some 10) \<and>
   map_of (links (add_collection_links [] 15 5 16)) ''next'' = None \<and>
   map_of (links (add_collection_links [] 0 5 16)) ''prev'' = None \<and>
   (\<exists>h. map_of (links (add_collection_links [] 0 5 16)) ''next'' = Some h \<and>
        endpoint h = ''get_todos'' \<and> link_offset h = Some 5)"
  using collection_prev_next_links [of "[]" 15 5 16]
    collection_prev_next_links [of "[]" 0 5 16]
  by auto

subsection \<open>Pagination metadata\<close>

text \<open>
  Claim C2. The \<^verbatim>\<open>page\<close> field is the offset, the size and the total exactly as they were
  passed to \<open>add_collection_links\<close>; for a valid request the list handler answers 200
  with a collection whose page holds the requested offset, the requested size and the
  length of the whole store. The number of embedded items plays no part: on the last
  page of the sample store one item is embedded and the page size still reads 5.
\<close>

theorem page_echoes_request:
  "page (add_collection_links items ofs sz tot) =
     \<lparr>offset = ofs, page_size = sz, total_items = tot\<rparr> \<and>
   (0 \<le> ofs \<and> 0 < sz \<longrightarrow>
      (\<exists>c. get_todos (Some ofs) (Some sz) todos = (Collection c, 200) \<and>
           page c = \<lparr>offset = ofs, page_size = sz, total_items = int (length todos)\<rparr>))"
  using get_todos_valid [of "Some ofs" "Some sz" todos]
  by (simp add: page_add_collection_links args_get_def)

theorem page_echoes_request_witness:
  "\<exists>c. get_todos (Some 15) (Some 5) initial_todos = (Collection c, 200) \<and>
       page c = \<lparr>offset = 15, page_size = 5, total_items = 16\<rparr> \<and>
       length (embedded c) = 1"
proof -
  from page_echoes_request [of "[]" 15 5 0 initial_todos]
  obtain c where c: "get_todos (Some 15) (Some 5) initial_todos = (Collection c, 200)"
    and p: "page c = \<lparr>offset = 15, page_size = 5, total_items = int (length initial_todos)\<rparr>"
    by auto
  have "get_todos (Some 15) (Some 5) initial_todos =
          (Collection (add_collection_links (take 5 (drop 15 initial_todos)) 15 5 16), 200)"
    using get_todos_valid [of "Some 15" "Some 5" initial_todos]
    by (simp add: args_get_def initial_todos_def)
  with c have "c = add_collection_links (take 5 (drop 15 initial_todos)) 15 5 16"
    by simp
  then have "length (embedded c) = 1"
    by (simp add: embedded_add_collection_links initial_todos_def)
  moreover have "int (length initial_todos) = 16"
    by (simp add: initial_todos_def)
  ultimately show ?thesis using c p by simp
qed

subsection \<open>The window of the list handler\<close>

text \<open>
  Claim C3. For a valid offset and size the list handler embeds the representations of
  \<^verbatim>\<open>todos[offset:offset + size]\<close>, that is of \<open>take size (drop offset todos)\<close>: the
  window is empty when the offset is at or beyond the end of the store, it is the whole
  tail from the offset when \<open>offset + size\<close> goes beyond the end, its \<open>i\<close>-th item is
  item \<open>offset + i\<close> of the store, and \<^verbatim>\<open>total_items\<close> is the length of the whole store.
\<close>

theorem get_todos_window:
  assumes "0 \<le> ofs" and "0 < sz"
  shows "\<exists>c. get_todos (Some ofs) (Some sz) todos = (Collection c, 200) \<and>
           embedded c = map add_todo_links (take (nat sz) (drop (nat ofs) todos)) \<and>
           map item (embedded c) = take (nat sz) (drop (nat ofs) todos) \<and>
           total_items (page c) = int (length todos) \<and>
           (int (length todos) \<le> ofs \<longrightarrow> embedded c = []) \<and>
           (int (length todos) < ofs + sz \<longrightarrow> map item (embedded c) = drop (nat ofs) todos) \<and>
           (\<forall>i<length (embedded c). item (embedded c ! i) = todos ! (nat ofs + i))"
proof -
  let ?w = "take (nat sz) (drop (nat ofs) todos)"
  let ?c = "add_collection_links ?w ofs sz (int (length todos))"
  have g: "get_todos (Some ofs) (Some sz) todos = (Collection ?c, 200)"
    using get_todos_valid [of "Some ofs" "Some sz" todos] assms by (simp add: args_get_def)
  have e: "embedded ?c = map add_todo_links ?w"
    by (simp add: embedded_add_collection_links)
  have m: "map item (embedded ?c) = ?w"
    unfolding e by (rule items_add_todo_links)
  have t: "total_items (page ?c) = int (length todos)"
    by (simp add: page_add_collection_links)
  have empty: "int (length todos) \<le> ofs \<longrightarrow> embedded ?c = []"
    unfolding e using assms by simp
  have tail: "int (length todos) < ofs + sz \<longrightarrow> map item (embedded ?c) = drop (nat ofs) todos"
    unfolding m using assms by simp
  have order: "\<forall>i<length (embedded ?c). item (embedded ?c ! i) = todos ! (nat ofs + i)"
  proof (intro allI impI)
    fix i assume i: "i < length (embedded ?c)"
    then have w: "i < length ?w" by (simp add: e)
    then have "nat ofs \<le> length todos" by (simp del: nat_le_iff) arith
    then have "?w ! i = todos ! (nat ofs + i)" using w by simp
    moreover have "item (embedded ?c ! i) = ?w ! i"
      using i m by (metis length_map nth_map)
    ultimately show "item (embedded ?c ! i) = todos ! (nat ofs + i)" by simp
  qed
  from g e m t empty tail order show ?thesis by blast
qed

theorem get_todos_window_witness:
  "\<exists>c. get_todos (Some 15) (Some 5) initial_todos = (Collection c, 200) \<and>
       map item (embedded c) = [mk_todo 16 ''Build a WebSockets connection''] \<and>
       total_items (page c) = 16"
proof -
  have "(0::int) \<le> 15" and "(0::int) < 5" by simp_all
  from get_todos_window [OF this, of initial_todos]
  obtain c where c: "get_todos (Some 15) (Some 5) initial_todos = (Collection c, 200)"
    and w: "map item (embedded c) = take (nat 5) (drop (nat 15) initial_todos)"
    and t: "total_items (page c) = int (length initial_todos)"
    by blast
  have "take (nat 5) (drop (nat 15) initial_todos) =
          [mk_todo 16 ''Build a WebSockets connection'']"
    by (simp add: initial_todos_def)
  moreover have "int (length initial_todos) = 16"
    by (simp add: initial_todos_def)
  ultimately show ?thesis using c w t by simp
qed

subsection \<open>Validation of the pagination parameters\<close>

text \<open>
  Claim C4. With the defaults 0 for an omitted \<^verbatim>\<open>offset\<close> and 5 for an omitted \<^verbatim>\<open>size\<close>,
  the list handler answers 400 exactly when the offset is negative or the size is not
  positive; the body is then the error payload, and nothing is clamped. In every other
  case it answers 200 with the collection representation of the window.
\<close>

theorem get_todos_validation:
  fixes offset_arg size_arg :: "int option" and todos :: "todo list"
  defines "ofs \<equiv> (case offset_arg of None \<Rightarrow> 0 | Some v \<Rightarrow> v)"
    and "sz \<equiv> (case size_arg of None \<Rightarrow> 5 | Some v \<Rightarrow> v)"
  shows "(snd (get_todos offset_arg size_arg todos) = 400 \<longleftrightarrow> ofs < 0 \<or> sz \<le> 0) \<and>
         (ofs < 0 \<or> sz \<le> 0 \<longrightarrow>
            get_todos offset_arg size_arg todos =
              (Error ''Invalid pagination parameters. Offset must be >= 0 and size must be > 0.'',
               400)) \<and>
         (\<not> (ofs < 0 \<or> sz \<le> 0) \<longrightarrow>
            get_todos offset_arg size_arg todos =
              (Collection (add_collection_links (take (nat sz) (drop (nat ofs) todos))
                             ofs sz (int (length todos))),
               200))"
proof -
  have a: "args_get offset_arg 0 = ofs" "args_get size_arg 5 = sz"
    by (simp_all add: args_get_def ofs_def sz_def)
  show ?thesis
  proof (cases "ofs < 0 \<or> sz \<le> 0")
    case True
    then show ?thesis by (simp add: get_todos_def a)
  next
    case False
    then have "0 \<le> args_get offset_arg 0" "0 < args_get size_arg 5"
      by (simp_all add: a)
    from get_todos_valid [OF this, of todos] False show ?thesis
      by (simp add: a)
  qed
qed

theorem get_todos_validation_witness:
  "snd (get_todos (Some (- 1)) None initial_todos) = 400 \<and>
   snd (get_todos None (Some 0) initial_todos) = 400 \<and>
   get_todos None None [] = (Collection (add_collection_links [] 0 5 0), 200)"
  using get_todos_validation [of "Some (- 1)" None initial_todos]
    get_todos_validation [of None "Some 0" initial_todos]
    get_todos_validation [of None None "[]"]
  by simp

subsection \<open>Update\<close>

text \<open>
  Item 3 of the sample store exists, and an update of it whose body is the JSON list
  \<^verbatim>\<open>[1]\<close> does not answer 200: the list is a true value, so \<^verbatim>\<open>request.json or {}\<close> keeps
  it, and \<^verbatim>\<open>data.get\<close> raises \<^verbatim>\<open>AttributeError\<close> before anything is written.
\<close>

theorem update_todo_list_body_counterexample:
  "find_todo 3 initial_todos = Some (mk_todo 3 ''Test the API'') \<and>
   update_todo 3 (JList [JInt 1]) initial_todos = (Inl AttributeError, initial_todos)"
  by (simp add: update_todo_def find_todo_def initial_todos_def mk_todo_def)

text \<open>
  Claim C5, amended. The update handler answers 404, whatever the body, when no item has
  the id, and leaves the store as it is. When \<open>find_todo\<close> finds the item \<open>t\<close> and the
  body is a JSON object or a false value, the handler answers 200 with the message and
  the representation of the merged item \<open>t'\<close>: same id, the body's \<^verbatim>\<open>task\<close> if it has
  one and the old task otherwise, and likewise for \<^verbatim>\<open>done\<close>, together with the links
  \<^verbatim>\<open>self\<close>, \<^verbatim>\<open>update\<close>, \<^verbatim>\<open>delete\<close> and \<^verbatim>\<open>collection\<close>. The fields \<open>kvs\<close> of the body are its
  items when it is an object, and none when it is a false value. The store holds \<open>t'\<close>
  in the place of \<open>t\<close> and is unchanged elsewhere.
\<close>

theorem update_todo_merges:
  fixes tid :: int and body :: json and kvs :: "(string \<times> json) list" and todos :: "todo list"
  shows
  "(find_todo tid todos = None \<longrightarrow>
      update_todo tid body todos = (Inr (Error ''To-do item not found'', 404), todos)) \<and>
   (\<forall>t. find_todo tid todos = Some t \<and> (body = JObj kvs \<or> \<not> truthy body \<and> kvs = []) \<longrightarrow>
      (\<exists>t' i. todo_id t' = tid \<and>
         todo_task t' = (case map_of kvs ''task'' of None \<Rightarrow> todo_task t | Some v \<Rightarrow> v) \<and>
         todo_done t' = (case map_of kvs ''done'' of None \<Rightarrow> todo_done t | Some v \<Rightarrow> v) \<and>
         i < length todos \<and> todos ! i = t \<and>
         update_todo tid body todos =
           (Inr (Message_Todo ''To-do item updated''
                   \<lparr>item = t',
                    item_links =
                      [(''self'', url_for ''get_todo'' [(''todo_id'', tid)]),
                       (''update'', url_for ''update_todo'' [(''todo_id'', tid)]),
                       (''delete'', url_for ''delete_todo'' [(''todo_id'', tid)]),
                       (''collection'', url_for ''get_todos'' [])]\<rparr>,
                 200),
            todos[i := t']) \<and>
         find_todo tid (todos[i := t']) = Some t'))"
proof (intro conjI allI impI)
  assume "find_todo tid todos = None"
  then show "update_todo tid body todos = (Inr (Error ''To-do item not found'', 404), todos)"
    by (rule update_todo_missing)
next
  fix t
  assume a: "find_todo tid todos = Some t \<and> (body = JObj kvs \<or> \<not> truthy body \<and> kvs = [])"
  then have found: "find_todo tid todos = Some t" by simp
  from a have same: "update_todo tid body todos = update_todo tid (JObj kvs) todos"
    using update_todo_falsy [of body tid todos] by auto
  let ?tk = "case map_of kvs ''task'' of None \<Rightarrow> todo_task t | Some v \<Rightarrow> v"
  let ?dn = "case map_of kvs ''done'' of None \<Rightarrow> todo_done t | Some v \<Rightarrow> v"
  let ?t' = "t\<lparr>todo_task := ?tk, todo_done := ?dn\<rparr>"
  let ?links = "[(''self'', url_for ''get_todo'' [(''todo_id'', tid)]),
                 (''update'', url_for ''update_todo'' [(''todo_id'', tid)]),
                 (''delete'', url_for ''delete_todo'' [(''todo_id'', tid)]),
                 (''collection'', url_for ''get_todos'' [])]"
  have id: "todo_id ?t' = tid" using find_todo_Some [OF found] by simp
  then have repr: "add_todo_links ?t' = \<lparr>item = ?t', item_links = ?links\<rparr>"
    by (simp add: add_todo_links_def)
  from assign_found_index [OF found, of "\<lambda>_. ?t'"]
  obtain i where i: "i < length todos" "todos ! i = t"
    and upd: "assign_found tid (\<lambda>_. ?t') todos = todos[i := ?t']"
    by blast
  have "update_todo tid (JObj kvs) todos =
          (Inr (Message_Todo ''To-do item updated'' (add_todo_links ?t'), 200), todos[i := ?t'])"
    using update_todo_dict [OF found, of kvs] upd by simp
  with same repr have "update_todo tid body todos =
          (Inr (Message_Todo ''To-do item updated'' \<lparr>item = ?t', item_links = ?links\<rparr>, 200),
           todos[i := ?t'])"
    by simp
  moreover have "find_todo tid (todos[i := ?t']) = Some ?t'"
    using find_todo_assign [OF found, of "\<lambda>_. ?t'"] id upd by simp
  ultimately show "\<exists>t' i. todo_id t' = tid \<and> todo_task t' = ?tk \<and> todo_done t' = ?dn \<and>
      i < length todos \<and> todos ! i = t \<and>
      update_todo tid body todos =
        (Inr (Message_Todo ''To-do item updated'' \<lparr>item = t', item_links = ?links\<rparr>, 200),
         todos[i := t']) \<and>
      find_todo tid (todos[i := t']) = Some t'"
    using id i by (intro exI [of _ ?t'] exI [of _ i]) simp
qed

theorem update_todo_merges_witness:
  "(\<exists>t'. todo_id t' = 3 \<and> todo_task t' = JStr ''Test the API'' \<and> todo_done t' = JBool True \<and>
        fst (update_todo 3 (JObj [(''done'', JBool True)]) initial_todos) =
          Inr (Message_Todo ''To-do item updated''
                 \<lparr>item = t',
                  item_links =
                    [(''self'', url_for ''get_todo'' [(''todo_id'', 3)]),
                     (''update'', url_for ''update_todo'' [(''todo_id'', 3)]),
                     (''delete'', url_for ''delete_todo'' [(''todo_id'', 3)]),
                     (''collection'', url_for ''get_todos'' [])]\<rparr>,
               200)) \<and>
   update_todo 999 (JObj [(''done'', JBool True)]) initial_todos =
     (Inr (Error ''To-do item not found'', 404), initial_todos)"
proof -
  have f3: "find_todo 3 initial_todos = Some (mk_todo 3 ''Test the API'')"
    by (simp add: find_todo_def initial_todos_def mk_todo_def)
  have f999: "find_todo 999 initial_todos = None"
    by (simp add: find_todo_def initial_todos_def mk_todo_def)
  note m = update_todo_merges [of 3 initial_todos "JObj [(''done'', JBool True)]"
      "[(''done'', JBool True)]"]
  from m f3 obtain t' where "todo_id t' = 3"
    "todo_task t' = todo_task (mk_todo 3 ''Test the API'')" "todo_done t' = JBool True"
    "fst (update_todo 3 (JObj [(''done'', JBool True)]) initial_todos) =
       Inr (Message_Todo ''To-do item updated''
                 \<lparr>item = t',
                  item_links =
                    [(''self'', url_for ''get_todo'' [(''todo_id'', 3)]),
                     (''update'', url_for ''update_todo'' [(''todo_id'', 3)]),
                     (''delete'', url_for ''delete_todo'' [(''todo_id'', 3)]),
                     (''collection'', url_for ''get_todos'' [])]\<rparr>, 200)"
    by fastforce
  moreover have "update_todo 999 (JObj [(''done'', JBool True)]) initial_todos =
     (Inr (Error ''To-do item not found'', 404), initial_todos)"
    using update_todo_merges [of 999 initial_todos "JObj [(''done'', JBool True)]" "[]"] f999
    by simp
  ultimately show ?thesis by (auto simp: mk_todo_def)
qed


subsection \<open>Create\<close>

text \<open>
  A body whose \<^verbatim>\<open>task\<close> is the empty string lacks a non-empty task, and the create
  handler answers 201 and stores the item: the handler tests that the key is there,
  not what it holds.
\<close>

theorem create_todo_empty_task_counterexample:
  "\<not> truthy (JStr '''') \<and>
   create_todo (JObj [(''task'', JStr '''')]) initial_todos =
     (Inr (Message_Todo ''To-do item created''
            (add_todo_links \<lparr>todo_id = 17, todo_task = JStr '''', todo_done = JBool False\<rparr>),
           201),
      initial_todos @ [\<lparr>todo_id = 17, todo_task = JStr '''', todo_done = JBool False\<rparr>])"
  by (simp add: create_todo_def next_id_def Let_def initial_todos_def mk_todo_def)

text \<open>
  Claim C6, amended. The create handler requires the key \<^verbatim>\<open>task\<close> in the body, whatever
  its value. A body that is empty (\<^verbatim>\<open>null\<close>, \<^verbatim>\<open>{}\<close> or another false value) and an object
  without the key \<^verbatim>\<open>task\<close> get 400 with the error payload, and the store is unchanged.
  An object with the key \<^verbatim>\<open>task\<close> gets 201, and the new item has that task and the
  body's \<^verbatim>\<open>done\<close>, or \<^verbatim>\<open>False\<close> when the body has none.
\<close>

theorem create_todo_requires_task_key:
  "(\<not> truthy data \<longrightarrow>
      create_todo data todos = (Inr (Error ''Task description is required'', 400), todos)) \<and>
   (map_of kvs ''task'' = None \<longrightarrow>
      create_todo (JObj kvs) todos =
        (Inr (Error ''Task description is required'', 400), todos)) \<and>
   (\<forall>tk. map_of kvs ''task'' = Some tk \<longrightarrow>
      (\<exists>new_todo. todo_task new_todo = tk \<and>
         todo_done new_todo =
           (case map_of kvs ''done'' of None \<Rightarrow> JBool False | Some d \<Rightarrow> d) \<and>
         create_todo (JObj kvs) todos =
           (Inr (Message_Todo ''To-do item created'' (add_todo_links new_todo), 201),
            todos @ [new_todo])))"
  using create_todo_falsy [of data todos] create_todo_no_key [of kvs todos]
    create_todo_key [of kvs _ todos]
  by auto

theorem create_todo_requires_task_key_witness:
  "create_todo JNull initial_todos =
     (Inr (Error ''Task description is required'', 400), initial_todos) \<and>
   create_todo (JObj [(''done'', JBool True)]) initial_todos =
     (Inr (Error ''Task description is required'', 400), initial_todos) \<and>
   (\<exists>new_todo. todo_task new_todo = JStr ''X'' \<and> todo_done new_todo = JBool False \<and>
      create_todo (JObj [(''task'', JStr ''X'')]) initial_todos =
        (Inr (Message_Todo ''To-do item created'' (add_todo_links new_todo), 201),
         initial_todos @ [new_todo]))"
  using create_todo_requires_task_key [of JNull initial_todos "[(''done'', JBool True)]"]
    create_todo_requires_task_key [of JNull initial_todos "[(''task'', JStr ''X'')]"]
  by simp

text \<open>
  Claim C7. Every create that answers 201 appends one item at the end of the store, the
  item of the response; its id is 1 when the store was empty and the largest id of the
  store plus one otherwise. On a store whose ids are 1 to 16 the new id is 17.
\<close>

theorem create_todo_assigns_next_id:
  assumes "create_todo data todos = (Inr (b, 201), todos')"
  shows "\<exists>new_todo. todos' = todos @ [new_todo] \<and>
           b = Message_Todo ''To-do item created'' (add_todo_links new_todo) \<and>
           todo_id new_todo = (if todos = [] then 1 else Max (todo_id ` set todos) + 1) \<and>
           (map todo_id todos = [1..16] \<longrightarrow> todo_id new_todo = 17)"
proof -
  from create_todo_cases [of data todos] assms
  obtain tk dn where
    "b = Message_Todo ''To-do item created''
           (add_todo_links \<lparr>todo_id = next_id todos, todo_task = tk, todo_done = dn\<rparr>)"
    "todos' = todos @ [\<lparr>todo_id = next_id todos, todo_task = tk, todo_done = dn\<rparr>]"
    by auto
  moreover have n: "next_id todos = (if todos = [] then 1 else Max (todo_id ` set todos) + 1)"
    using next_id_Max [of todos] by (simp add: next_id_def)
  moreover have "map todo_id todos = [1..16] \<longrightarrow> next_id todos = 17"
  proof
    assume m: "map todo_id todos = [1..16]"
    then have "todos \<noteq> []" by auto
    moreover have "todo_id ` set todos = set [1..16]"
      using m by (metis set_map)
    moreover have "Max {1..16::int} = 16"
      by (rule Max_eqI) simp_all
    ultimately show "next_id todos = 17" using n by simp
  qed
  ultimately show ?thesis by simp
qed

theorem create_todo_assigns_next_id_witness:
  "\<exists>b new_todo. create_todo (JObj [(''task'', JStr ''X'')]) initial_todos =
       (Inr (b, 201), initial_todos @ [new_todo]) \<and> todo_id new_todo = 17"
proof -
  let ?n = "\<lparr>todo_id = next_id initial_todos, todo_task = JStr ''X'', todo_done = JBool False\<rparr>"
  have c: "create_todo (JObj [(''task'', JStr ''X'')]) initial_todos =
             (Inr (Message_Todo ''To-do item created'' (add_todo_links ?n), 201),
              initial_todos @ [?n])"
    using create_todo_key [of "[(''task'', JStr ''X'')]" "JStr ''X''" initial_todos] by simp
  have ids: "map todo_id initial_todos = [1..16]"
  proof -
    have "[1..16] = [1, 2, 3, 4, 5, 6, 7, 8, 9, 10, 11, 12, 13, 14, 15, 16 :: int]"
      by code_simp
    then show ?thesis by (simp add: initial_todos_def mk_todo_def)
  qed
  from create_todo_assigns_next_id [OF c] ids have "todo_id ?n = 17" by auto
  with c show ?thesis by blast
qed

subsection \<open>Delete\<close>

text \<open>
  Claim C8. The delete handler answers 200 with the message and the \<^verbatim>\<open>collection\<close> link
  for every id, and never 404. The new store is the old one without the items of that
  id; when no item has the id, the store is unchanged.
\<close>

theorem delete_todo_never_fails:
  "fst (delete_todo tid todos) =
     (Message_Links (''To-do item with ID '' @ str_int tid @ '' deleted'')
        [(''collection'', url_for ''get_todos'' [])],
      200) \<and>
   snd (delete_todo tid todos) = filter (\<lambda>t. todo_id t \<noteq> tid) todos \<and>
   (find_todo tid todos = None \<longrightarrow> snd (delete_todo tid todos) = todos) \<and>
   find_todo tid (snd (delete_todo tid todos)) = None"
  by (auto simp: delete_todo_def filter_absent find_todo_None)

theorem delete_todo_never_fails_witness:
  "delete_todo 999 initial_todos =
     ((Message_Links ''To-do item with ID 999 deleted''
         [(''collection'', url_for ''get_todos'' [])],
       200),
      initial_todos)"
proof -
  note d = delete_todo_never_fails [of 999 initial_todos]
  have absent: "find_todo 999 initial_todos = None"
    by (simp add: find_todo_def initial_todos_def mk_todo_def)
  have digits: "str_int 999 = ''999''"
    by (simp add: str_int_def str_nat.simps)
  from d have "fst (delete_todo 999 initial_todos) =
      (Message_Links (''To-do item with ID '' @ str_int 999 @ '' deleted'')
         [(''collection'', url_for ''get_todos'' [])], 200)"
    by blast
  moreover from d absent have "snd (delete_todo 999 initial_todos) = initial_todos"
    by blast
  ultimately show ?thesis by (simp add: prod_eq_iff digits)
qed

subsection \<open>An update without fields\<close>

text \<open>
  The JSON string \<^verbatim>\<open>"note"\<close> as a body provides neither \<^verbatim>\<open>task\<close> nor \<^verbatim>\<open>done\<close>, and an
  update of the existing item 3 with it does not answer 200: \<^verbatim>\<open>data.get\<close> raises
  \<^verbatim>\<open>AttributeError\<close> on a string.
\<close>

theorem update_todo_string_body_counterexample:
  "find_todo 3 initial_todos = Some (mk_todo 3 ''Test the API'') \<and>
   update_todo 3 (JStr ''note'') initial_todos = (Inl AttributeError, initial_todos)"
  by (simp add: update_todo_def find_todo_def initial_todos_def mk_todo_def)

text \<open>
  Claim C9, amended. For an id that \<open>find_todo\<close> finds, an update whose body is a false
  JSON value (\<^verbatim>\<open>null\<close>, \<^verbatim>\<open>false\<close>, \<^verbatim>\<open>0\<close>, an empty string, list or object), or an object
  with neither \<^verbatim>\<open>task\<close> nor \<^verbatim>\<open>done\<close>, answers 200 with the representation of the item
  as it was, and the store, this item and every other, is unchanged.
\<close>

theorem update_todo_empty_is_noop:
  assumes "find_todo tid todos = Some t"
    and "\<not> truthy body \<or>
         (\<exists>kvs. body = JObj kvs \<and> map_of kvs ''task'' = None \<and> map_of kvs ''done'' = None)"
  shows "update_todo tid body todos =
           (Inr (Message_Todo ''To-do item updated'' (add_todo_links t), 200), todos)"
proof -
  have dict: "update_todo tid (JObj kvs) todos =
      (Inr (Message_Todo ''To-do item updated'' (add_todo_links t), 200), todos)"
    if "map_of kvs ''task'' = None" and "map_of kvs ''done'' = None" for kvs
    using update_todo_dict [OF assms(1), of kvs] that assign_found_self [OF assms(1)]
    by simp
  from assms(2) show ?thesis
  proof
    assume "\<not> truthy body"
    then show ?thesis using update_todo_falsy [of body tid todos] dict [of "[]"] by simp
  next
    assume "\<exists>kvs. body = JObj kvs \<and> map_of kvs ''task'' = None \<and> map_of kvs ''done'' = None"
    then show ?thesis using dict by blast
  qed
qed

theorem update_todo_empty_is_noop_witness:
  "update_todo 3 JNull initial_todos =
     (Inr (Message_Todo ''To-do item updated'' (add_todo_links (mk_todo 3 ''Test the API'')),
           200),
      initial_todos) \<and>
   update_todo 3 (JObj [(''note'', JStr ''x'')]) initial_todos =
     (Inr (Message_Todo ''To-do item updated'' (add_todo_links (mk_todo 3 ''Test the API'')),
           200),
      initial_todos)"
proof -
  have f: "find_todo 3 initial_todos = Some (mk_todo 3 ''Test the API'')"
    by (simp add: find_todo_def initial_todos_def mk_todo_def)
  have a: "\<not> truthy JNull \<or>
       (\<exists>kvs. JNull = JObj kvs \<and> map_of kvs ''task'' = None \<and> map_of kvs ''done'' = None)"
    by simp
  have b: "\<not> truthy (JObj [(''note'', JStr ''x'')]) \<or>
       (\<exists>kvs. JObj [(''note'', JStr ''x'')] = JObj kvs \<and> map_of kvs ''task'' = None \<and>
          map_of kvs ''done'' = None)"
    by simp
  from update_todo_empty_is_noop [OF f a] update_todo_empty_is_noop [OF f b]
  show ?thesis by simp
qed

subsection \<open>Ids stay distinct\<close>

text \<open>
  Claim C10. If the ids of the store are pairwise distinct, they are so after a create,
  an update and a delete, whatever the request and whatever its outcome: the id that a
  create assigns is greater than every id of the store, an update leaves the list of
  ids as it is, and a delete only removes items. At most one item of such a store has
  a given id.
\<close>

theorem ids_stay_distinct:
  assumes "distinct (map todo_id todos)"
  shows "distinct (map todo_id (snd (create_todo data todos))) \<and>
         distinct (map todo_id (snd (update_todo tid body todos))) \<and>
         distinct (map todo_id (snd (delete_todo tid todos))) \<and>
         (\<forall>t\<in>set todos. todo_id t < next_id todos) \<and>
         map todo_id (snd (update_todo tid body todos)) = map todo_id todos \<and>
         set (snd (delete_todo tid todos)) \<subseteq> set todos \<and>
         length (filter (\<lambda>t. todo_id t = k) todos) \<le> 1"
proof -
  have fresh: "next_id todos \<notin> set (map todo_id todos)"
  proof
    assume "next_id todos \<in> set (map todo_id todos)"
    then obtain t where "t \<in> set todos" and "todo_id t = next_id todos" by auto
    with next_id_greater [of t todos] show False by simp
  qed
  have c: "distinct (map todo_id (snd (create_todo data todos)))"
    using create_todo_ids [of data todos] assms fresh by auto
  have u: "distinct (map todo_id (snd (update_todo tid body todos)))"
    using assms by (simp add: update_todo_ids)
  have d: "distinct (map todo_id (snd (delete_todo tid todos)))"
    using assms by (simp add: delete_todo_def distinct_map_filter)
  have s: "set (snd (delete_todo tid todos)) \<subseteq> set todos"
    by (simp add: delete_todo_def)
  from c u d s show ?thesis
    using next_id_greater [of _ todos] update_todo_ids [of tid body todos]
      at_most_one [OF assms, of k]
    by blast
qed

theorem ids_stay_distinct_witness:
  "distinct (map todo_id initial_todos) \<and>
   distinct (map todo_id (snd (create_todo (JObj [(''task'', JStr ''X'')]) initial_todos))) \<and>
   distinct (map todo_id (snd (update_todo 3 (JObj [(''done'', JBool True)]) initial_todos))) \<and>
   distinct (map todo_id (snd (delete_todo 3 initial_todos)))"
proof -
  have d: "distinct (map todo_id initial_todos)"
    by (simp add: initial_todos_def mk_todo_def)
  from ids_stay_distinct [OF d] d show ?thesis by blast
qed

end
